theory Spec2Isabelle
  imports Main
begin

section \<open>Data model of the relay server (server/server.js)\<close>

text \<open>
  The server is a Socket.IO program: one module-level \<^verbatim>\<open>activeUsers\<close> map, an
  authentication middleware and one connection listener that installs the event handlers
  of every socket. The handlers run to completion one after the other, so each of them is
  a function from the server state to the server state. What a client can observe is the
  sequence of events emitted to its socket; the state therefore carries the log of all
  emissions, in the order in which the server made them.

  Identifiers are JavaScript strings. The clock (\<^verbatim>\<open>Date.now()\<close>, \<^verbatim>\<open>new Date()\<close>) is an
  input of the handler that reads it; the two reads of one handler run see the same
  millisecond.
\<close>

type_synonym uid = string
type_synonym sid = string
type_synonym room = string

text \<open>
  The fields of a socket that the program reads: \<^verbatim>\<open>socket.id\<close>, the three fields the
  middleware stores on it, and \<^verbatim>\<open>socket.socket\<close>, which the first statement of the
  connection listener dereferences. The class of the socket belongs to the Socket.IO
  library; whether it has a property \<^verbatim>\<open>socket\<close> is a parameter here:
  \<open>sock_socket = None\<close> stands for \<^verbatim>\<open>undefined\<close>, \<open>Some i\<close> for an object whose
  \<^verbatim>\<open>id\<close> is \<open>i\<close>.
\<close>

record sock =
  sock_id :: sid
  sock_userId :: uid
  sock_userName :: string
  sock_email :: string
  sock_socket :: "sid option"

text \<open>The value stored in \<^verbatim>\<open>activeUsers\<close> for one user id.\<close>

record user_info =
  ui_socketId :: sid
  ui_userName :: string
  ui_email :: string
  ui_status :: string

record message =
  msg_id :: nat
  msg_from :: string
  msg_fromId :: uid
  msg_text :: string
  msg_timestamp :: nat
  msg_avatar :: string

record notification =
  ntf_id :: nat
  ntf_from :: string
  ntf_fromId :: uid
  ntf_message :: string
  ntf_type :: string
  ntf_timestamp :: nat

text \<open>The events the server emits, each with the payload the source builds for it.\<close>

datatype event =
    UserConnected uid string "user_info list"
  | MessageReceived message
  | UserTyping uid string bool
  | NotificationReceived notification
  | RoomEvent string string string
  | RoomMessageReceived string string nat
  | LiveUpdate string string nat
  | UserStatusChanged uid string string
  | ActiveUsersList "user_info list"
  | UserDisconnected uid string "user_info list"

text \<open>
  The server state. \<open>activeUsers\<close> is the JavaScript \<^verbatim>\<open>Map\<close> of the source, kept as an
  association list in insertion order. \<open>sockets\<close> is \<^verbatim>\<open>io.sockets.sockets\<close>, the connected
  sockets of the namespace in connection order. \<open>rooms\<close> is the adapter's room table.
  \<open>trace\<close> logs every emission as the pair of the receiving socket's id and the event.
\<close>

record server =
  activeUsers :: "(uid \<times> user_info) list"
  sockets :: "sock list"
  rooms :: "room \<Rightarrow> sid set"
  trace :: "(sid \<times> event) list"

definition init :: server where
  "init = \<lparr>activeUsers = [], sockets = [], rooms = (\<lambda>_. {}), trace = []\<rparr>"

text \<open>What the socket with id \<open>i\<close> has been sent so far, oldest first.\<close>

definition received :: "server \<Rightarrow> sid \<Rightarrow> event list" where
  "received srv i = map snd (filter (\<lambda>p. fst p = i) (trace srv))"

subsection \<open>The JavaScript Map\<close>

text \<open>
  \<^verbatim>\<open>Map.prototype.set\<close> replaces the value of a key that is present, leaving the key at
  its position, and appends a key that is absent; \<^verbatim>\<open>delete\<close> removes the key;
  \<^verbatim>\<open>values()\<close> iterates in insertion order.
\<close>

fun map_set :: "'k \<Rightarrow> 'v \<Rightarrow> ('k \<times> 'v) list \<Rightarrow> ('k \<times> 'v) list" where
  "map_set k v [] = [(k, v)]"
| "map_set k v (p # m) = (if fst p = k then (k, v) # m else p # map_set k v m)"

definition map_delete :: "'k \<Rightarrow> ('k \<times> 'v) list \<Rightarrow> ('k \<times> 'v) list" where
  "map_delete k m = filter (\<lambda>p. fst p \<noteq> k) m"

definition map_get :: "'k \<Rightarrow> ('k \<times> 'v) list \<Rightarrow> 'v option" where
  "map_get k m = map_of m k"

definition map_has :: "'k \<Rightarrow> ('k \<times> 'v) list \<Rightarrow> bool" where
  "map_has k m = (k \<in> set (map fst m))"

definition map_values :: "('k \<times> 'v) list \<Rightarrow> 'v list" where
  "map_values m = map snd m"

subsection \<open>The presence registry: the three uses of \<^verbatim>\<open>activeUsers\<close>\<close>

text \<open>
  \<^verbatim>\<open>activeUsers.set(socket.userId, {socketId, userName, email, status: 'online'})\<close> in the
  connection listener is the registry's register operation;
  \<^verbatim>\<open>activeUsers.delete(socket.userId)\<close> in the disconnect handler is its deregister;
  \<^verbatim>\<open>Array.from(activeUsers.values())\<close> is its snapshot.
\<close>

definition activeUsers_set :: "sock \<Rightarrow> server \<Rightarrow> server" where
  "activeUsers_set s srv =
     srv\<lparr>activeUsers :=
       map_set (sock_userId s)
         \<lparr>ui_socketId = sock_id s, ui_userName = sock_userName s,
          ui_email = sock_email s, ui_status = ''online''\<rparr>
         (activeUsers srv)\<rparr>"

definition activeUsers_delete :: "uid \<Rightarrow> server \<Rightarrow> server" where
  "activeUsers_delete u srv = srv\<lparr>activeUsers := map_delete u (activeUsers srv)\<rparr>"

definition activeUsers_values :: "server \<Rightarrow> user_info list" where
  "activeUsers_values srv = map_values (activeUsers srv)"

subsection \<open>The emitting primitives of Socket.IO\<close>

text \<open>
  The library delivers an emission to connected sockets only. \<^verbatim>\<open>io.emit\<close> reaches every
  connected socket, \<^verbatim>\<open>io.to(room).emit\<close> the connected sockets that are members of the room,
  and \<^verbatim>\<open>socket.emit\<close> the socket itself. \<^verbatim>\<open>socket.broadcast\<close> is a broadcast to all
  rooms except the room named by \<^verbatim>\<open>socket.id\<close>: it reaches every connected socket that is
  not a member of that room. The library puts a socket into the room of its own id when
  it connects, so this is every socket but the sender as long as no handler has changed
  the membership of that room. \<^verbatim>\<open>socket.join\<close> and \<^verbatim>\<open>socket.leave\<close> change the room
  table (with the in-memory adapter, at once).
\<close>

definition emit_to :: "sock list \<Rightarrow> event \<Rightarrow> server \<Rightarrow> server" where
  "emit_to rs e srv = srv\<lparr>trace := trace srv @ map (\<lambda>r. (sock_id r, e)) rs\<rparr>"

definition io_emit :: "event \<Rightarrow> server \<Rightarrow> server" where
  "io_emit e srv = emit_to (sockets srv) e srv"

definition broadcast_emit :: "sock \<Rightarrow> event \<Rightarrow> server \<Rightarrow> server" where
  "broadcast_emit s e srv =
     emit_to (filter (\<lambda>r. sock_id r \<notin> rooms srv (sock_id s)) (sockets srv)) e srv"

definition io_to_emit :: "room \<Rightarrow> event \<Rightarrow> server \<Rightarrow> server" where
  "io_to_emit rm e srv =
     emit_to (filter (\<lambda>r. sock_id r \<in> rooms srv rm) (sockets srv)) e srv"

definition socket_emit :: "sock \<Rightarrow> event \<Rightarrow> server \<Rightarrow> server" where
  "socket_emit s e srv = emit_to [s] e srv"

definition socket_join :: "sock \<Rightarrow> room \<Rightarrow> server \<Rightarrow> server" where
  "socket_join s rm srv = srv\<lparr>rooms := (rooms srv)(rm := insert (sock_id s) (rooms srv rm))\<rparr>"

definition socket_leave :: "sock \<Rightarrow> room \<Rightarrow> server \<Rightarrow> server" where
  "socket_leave s rm srv = srv\<lparr>rooms := (rooms srv)(rm := rooms srv rm - {sock_id s})\<rparr>"

text \<open>
  When a socket is admitted the library puts it into the namespace and into the room
  named by its own id, and then calls the connection listener. When a socket closes the
  library takes it out of every room and out of the namespace, and then calls the
  socket's disconnect handler.
\<close>

definition nsp_add :: "sock \<Rightarrow> server \<Rightarrow> server" where
  "nsp_add s srv = socket_join s (sock_id s) (srv\<lparr>sockets := sockets srv @ [s]\<rparr>)"

definition nsp_remove :: "sock \<Rightarrow> server \<Rightarrow> server" where
  "nsp_remove s srv =
     srv\<lparr>sockets := filter (\<lambda>r. sock_id r \<noteq> sock_id s) (sockets srv),
         rooms := (\<lambda>rm. rooms srv rm - {sock_id s})\<rparr>"

section \<open>The authentication middleware\<close>

text \<open>
  \<^verbatim>\<open>socket.handshake.auth.token\<close> is absent (\<open>None\<close>) or a string; \<^verbatim>\<open>!token\<close> holds for
  an absent token and for the empty string. \<^verbatim>\<open>jwt.decode\<close> is a function of the
  jsonwebtoken library and a parameter of the model: it throws, returns \<^verbatim>\<open>null\<close>, or
  returns the claims.
\<close>

record handshake =
  hs_id :: sid
  hs_token :: "string option"
  hs_socket :: "sid option"

record claims =
  cl_userId :: uid
  cl_userName :: string
  cl_email :: string

datatype decoded = Throws string | Null | Payload claims

definition auth :: "(string \<Rightarrow> decoded) \<Rightarrow> handshake \<Rightarrow> string + sock" where
  "auth decode hs =
     (case hs_token hs of
        None \<Rightarrow> Inl ''Authentication error: No token provided''
      | Some token \<Rightarrow>
          if token = [] then Inl ''Authentication error: No token provided''
          else (case decode token of
                  Throws m \<Rightarrow> Inl (''Authentication failed: '' @ m)
                | Null \<Rightarrow> Inl (''Authentication failed: '' @ ''Invalid token'')
                | Payload c \<Rightarrow>
                    Inr \<lparr>sock_id = hs_id hs, sock_userId = cl_userId c,
                         sock_userName = cl_userName c, sock_email = cl_email c,
                         sock_socket = hs_socket hs\<rparr>))"

section \<open>The connection listener and the handlers it installs\<close>

text \<open>
  The listener's first statement logs \<^verbatim>\<open>socket.socket.id\<close>. Reading \<^verbatim>\<open>id\<close> of
  \<^verbatim>\<open>undefined\<close> throws a TypeError, which nothing catches: the listener then returns no
  state (\<open>None\<close>). Otherwise it goes on to its next statements, \<open>connection_register\<close>:
  it stores the user (\<^verbatim>\<open>activeUsers.set\<close>) and announces it to every connected socket
  (\<^verbatim>\<open>io.emit('userConnected', ...)\<close>); then it installs the handlers. The other log
  statements of the listener only print values that exist.
\<close>

definition connection_register :: "sock \<Rightarrow> server \<Rightarrow> server" where
  "connection_register s srv =
     (let srv1 = activeUsers_set s srv
      in io_emit (UserConnected (sock_userId s) (sock_userName s)
                    (activeUsers_values srv1)) srv1)"

definition connection :: "sock \<Rightarrow> server \<Rightarrow> server option" where
  "connection s srv =
     (case sock_socket s of
        None \<Rightarrow> None
      | Some _ \<Rightarrow> Some (connection_register s srv))"

text \<open>
  A handler receives the payload the client sent with the event. A client may send an
  event with no payload; the parameter is then \<^verbatim>\<open>undefined\<close>, and a handler that reads a
  property of it throws a TypeError that nothing catches. The handlers of
  \<^verbatim>\<open>userTyping\<close>, \<^verbatim>\<open>sendNotification\<close>, \<^verbatim>\<open>roomMessage\<close> and \<^verbatim>\<open>shareUpdate\<close> take the
  payload as an option and return \<open>None\<close> for that throw. \<open>sendMessage\<close> is the handler
  on the events that carry a payload.
\<close>

record message_data =
  md_text :: string
  md_avatar :: "string option"

definition message_of :: "sock \<Rightarrow> nat \<Rightarrow> message_data \<Rightarrow> message" where
  "message_of s now d =
     \<lparr>msg_id = now, msg_from = sock_userName s, msg_fromId = sock_userId s,
      msg_text = md_text d, msg_timestamp = now,
      msg_avatar =
        (case md_avatar d of
           None \<Rightarrow> ''https://i.pravatar.cc/150?img='' @ sock_userId s
         | Some a \<Rightarrow> if a = [] then ''https://i.pravatar.cc/150?img='' @ sock_userId s else a)\<rparr>"

definition sendMessage :: "sock \<Rightarrow> nat \<Rightarrow> message_data \<Rightarrow> server \<Rightarrow> server" where
  "sendMessage s now d srv = io_emit (MessageReceived (message_of s now d)) srv"

record typing_data =
  td_isTyping :: bool

definition userTyping :: "sock \<Rightarrow> typing_data option \<Rightarrow> server \<Rightarrow> server option" where
  "userTyping s data srv =
     (case data of
        None \<Rightarrow> None
      | Some d \<Rightarrow>
          Some (broadcast_emit s
                  (UserTyping (sock_userId s) (sock_userName s) (td_isTyping d)) srv))"

record notification_data =
  nd_recipientId :: uid
  nd_message :: string
  nd_type :: "string option"

definition notification_of :: "sock \<Rightarrow> nat \<Rightarrow> notification_data \<Rightarrow> notification" where
  "notification_of s now d =
     \<lparr>ntf_id = now, ntf_from = sock_userName s, ntf_fromId = sock_userId s,
      ntf_message = nd_message d,
      ntf_type = (case nd_type d of None \<Rightarrow> ''info'' | Some t \<Rightarrow> if t = [] then ''info'' else t),
      ntf_timestamp = now\<rparr>"

definition sendNotification ::
  "sock \<Rightarrow> nat \<Rightarrow> notification_data option \<Rightarrow> server \<Rightarrow> server option" where
  "sendNotification s now data srv =
     (case data of
        None \<Rightarrow> None
      | Some d \<Rightarrow>
          (case find (\<lambda>x. sock_userId x = nd_recipientId d) (sockets srv) of
             None \<Rightarrow> Some srv
           | Some recipient \<Rightarrow>
               Some (socket_emit recipient
                       (NotificationReceived (notification_of s now d)) srv)))"

definition joinChatRoom :: "sock \<Rightarrow> room \<Rightarrow> server \<Rightarrow> server" where
  "joinChatRoom s roomId srv =
     io_to_emit roomId
       (RoomEvent ''userJoined'' (sock_userName s) (sock_userName s @ '' has joined the room''))
       (socket_join s roomId srv)"

record room_data =
  rd_roomId :: room
  rd_text :: string

definition roomMessage :: "sock \<Rightarrow> nat \<Rightarrow> room_data option \<Rightarrow> server \<Rightarrow> server option" where
  "roomMessage s now roomData srv =
     (case roomData of
        None \<Rightarrow> None
      | Some d \<Rightarrow>
          Some (io_to_emit (rd_roomId d)
                  (RoomMessageReceived (sock_userName s) (rd_text d) now) srv))"

definition leaveChatRoom :: "sock \<Rightarrow> room \<Rightarrow> server \<Rightarrow> server" where
  "leaveChatRoom s roomId srv =
     io_to_emit roomId
       (RoomEvent ''userLeft'' (sock_userName s) (sock_userName s @ '' has left the room''))
       (socket_leave s roomId srv)"

record update_data =
  ud_update :: string

definition shareUpdate :: "sock \<Rightarrow> nat \<Rightarrow> update_data option \<Rightarrow> server \<Rightarrow> server option" where
  "shareUpdate s now data srv =
     (case data of
        None \<Rightarrow> None
      | Some d \<Rightarrow>
          Some (broadcast_emit s (LiveUpdate (sock_userName s) (ud_update d) now) srv))"

definition updateStatus :: "sock \<Rightarrow> string \<Rightarrow> server \<Rightarrow> server" where
  "updateStatus s st srv =
     io_emit (UserStatusChanged (sock_userId s) (sock_userName s) st)
       (case map_get (sock_userId s) (activeUsers srv) of
          None \<Rightarrow> srv
        | Some user \<Rightarrow>
            srv\<lparr>activeUsers :=
              map_set (sock_userId s) (user\<lparr>ui_status := st\<rparr>) (activeUsers srv)\<rparr>)"

definition getActiveUsers :: "sock \<Rightarrow> server \<Rightarrow> server" where
  "getActiveUsers s srv = socket_emit s (ActiveUsersList (activeUsers_values srv)) srv"

definition disconnect :: "sock \<Rightarrow> server \<Rightarrow> server" where
  "disconnect s srv =
     (let srv1 = activeUsers_delete (sock_userId s) srv
      in io_emit (UserDisconnected (sock_userId s) (sock_userName s)
                    (activeUsers_values srv1)) srv1)"

section \<open>The server as a transition system\<close>

text \<open>
  A connection attempt runs the middleware; when it passes an error to \<^verbatim>\<open>next\<close> the
  library refuses the attempt with that message and calls nothing else. Otherwise the
  socket is admitted. \<open>None\<close> is the process brought down by an uncaught TypeError, of
  the listener or of a handler.
\<close>

datatype reply = ConnectError string | Connected

definition admit :: "sock \<Rightarrow> server \<Rightarrow> server option" where
  "admit s srv = connection s (nsp_add s srv)"

definition close :: "sock \<Rightarrow> server \<Rightarrow> server" where
  "close s srv = disconnect s (nsp_remove s srv)"

definition accept :: "(string \<Rightarrow> decoded) \<Rightarrow> handshake \<Rightarrow> server \<Rightarrow> (reply \<times> server) option" where
  "accept decode hs srv =
     (case auth decode hs of
        Inl msg \<Rightarrow> Some (ConnectError msg, srv)
      | Inr s \<Rightarrow> map_option (Pair Connected) (admit s srv))"

datatype action =
    Admit sock
  | SendMessage sock nat message_data
  | Typing sock "typing_data option"
  | SendNotification sock nat "notification_data option"
  | JoinChatRoom sock room
  | RoomMessage sock nat "room_data option"
  | LeaveChatRoom sock room
  | ShareUpdate sock nat "update_data option"
  | UpdateStatus sock string
  | GetActiveUsers sock
  | Close sock

fun step :: "action \<Rightarrow> server \<Rightarrow> server option" where
  "step (Admit s) srv = admit s srv"
| "step (SendMessage s now d) srv = Some (sendMessage s now d srv)"
| "step (Typing s d) srv = userTyping s d srv"
| "step (SendNotification s now d) srv = sendNotification s now d srv"
| "step (JoinChatRoom s rm) srv = Some (joinChatRoom s rm srv)"
| "step (RoomMessage s now d) srv = roomMessage s now d srv"
| "step (LeaveChatRoom s rm) srv = Some (leaveChatRoom s rm srv)"
| "step (ShareUpdate s now d) srv = shareUpdate s now d srv"
| "step (UpdateStatus s st) srv = Some (updateStatus s st srv)"
| "step (GetActiveUsers s) srv = Some (getActiveUsers s srv)"
| "step (Close s) srv = Some (close s srv)"

fun run :: "action list \<Rightarrow> server \<Rightarrow> server option" where
  "run [] srv = Some srv"
| "run (a # as) srv = (case step a srv of None \<Rightarrow> None | Some srv' \<Rightarrow> run as srv')"

section \<open>The typing indicator of the chat component (ChatComponent.jsx)\<close>

text \<open>
  \<^verbatim>\<open>handleInputChange\<close> runs on every keystroke. It uses one ref,
  \<^verbatim>\<open>typingTimeoutRef\<close>, holding \<^verbatim>\<open>null\<close> or the id of a browser timer, and the browser's
  \<^verbatim>\<open>setTimeout\<close> and \<^verbatim>\<open>clearTimeout\<close>. Time is counted in milliseconds. The browser's
  pending timers are part of the state; \<^verbatim>\<open>setTimeout\<close> returns a fresh positive id. A
  timer remembers whether the \<^verbatim>\<open>socket\<close> its callback closed over was non-null, since the
  callback emits through \<^verbatim>\<open>socket?.emit\<close>. \<open>emitted\<close> lists the \<^verbatim>\<open>isTyping\<close> values of the
  \<^verbatim>\<open>userTyping\<close> events the component has emitted, oldest first.
\<close>

record timer =
  tm_id :: nat
  tm_due :: nat
  tm_socket :: bool

record chat =
  inputValue :: string
  typingTimeoutRef :: "nat option"
  timers :: "timer list"
  last_id :: nat
  emitted :: "bool list"

definition mounted :: chat where
  "mounted = \<lparr>inputValue = [], typingTimeoutRef = None, timers = [], last_id = 0, emitted = []\<rparr>"

text \<open>\<^verbatim>\<open>!typingTimeoutRef.current\<close>: true of \<^verbatim>\<open>null\<close> and of the number 0.\<close>

definition falsy :: "nat option \<Rightarrow> bool" where
  "falsy r = (case r of None \<Rightarrow> True | Some i \<Rightarrow> i = 0)"

definition emit_userTyping :: "bool \<Rightarrow> bool \<Rightarrow> chat \<Rightarrow> chat" where
  "emit_userTyping socket isTyping st =
     (if socket then st\<lparr>emitted := emitted st @ [isTyping]\<rparr> else st)"

definition clearTimeout :: "nat option \<Rightarrow> timer list \<Rightarrow> timer list" where
  "clearTimeout r ts = (case r of None \<Rightarrow> ts | Some i \<Rightarrow> filter (\<lambda>t. tm_id t \<noteq> i) ts)"

definition handleInputChange :: "bool \<Rightarrow> nat \<Rightarrow> string \<Rightarrow> chat \<Rightarrow> chat" where
  "handleInputChange socket now v st =
     (let st1 = st\<lparr>inputValue := v\<rparr>;
          st2 = (if falsy (typingTimeoutRef st1) then emit_userTyping socket True st1 else st1);
          st3 = st2\<lparr>timers := clearTimeout (typingTimeoutRef st2) (timers st2)\<rparr>;
          i = Suc (last_id st3)
      in st3\<lparr>timers := timers st3 @ [\<lparr>tm_id = i, tm_due = now + 2000, tm_socket = socket\<rparr>],
             last_id := i,
             typingTimeoutRef := Some i\<rparr>)"

text \<open>The callback given to \<^verbatim>\<open>setTimeout\<close>.\<close>

definition timeout_callback :: "timer \<Rightarrow> chat \<Rightarrow> chat" where
  "timeout_callback t st = (emit_userTyping (tm_socket t) False st)\<lparr>typingTimeoutRef := None\<rparr>"

text \<open>
  The browser at time \<open>now\<close>: every pending timer that is due is taken out of the pending
  list and its callback runs, earliest first.
\<close>

definition advance :: "nat \<Rightarrow> chat \<Rightarrow> chat" where
  "advance now st =
     fold timeout_callback
       (sort_key tm_due (filter (\<lambda>t. tm_due t \<le> now) (timers st)))
       (st\<lparr>timers := filter (\<lambda>t. \<not> tm_due t \<le> now) (timers st)\<rparr>)"

text \<open>A keystroke at time \<open>now\<close> that leaves \<open>v\<close> in the input field.\<close>

definition keystroke :: "bool \<Rightarrow> nat \<times> string \<Rightarrow> chat \<Rightarrow> chat" where
  "keystroke socket k st = handleInputChange socket (fst k) (snd k) (advance (fst k) st)"

fun type_burst :: "bool \<Rightarrow> (nat \<times> string) list \<Rightarrow> chat \<Rightarrow> chat" where
  "type_burst socket [] st = st"
| "type_burst socket (k # ks) st = type_burst socket ks (keystroke socket k st)"

text \<open>
  The times of a burst: in order, each less than the window of 2000 ms after the one
  before.
\<close>

fun within_window :: "nat list \<Rightarrow> bool" where
  "within_window (a # b # ts) = (a \<le> b \<and> b < a + 2000 \<and> within_window (b # ts))"
| "within_window ts = True"

section \<open>Sockets used in the examples\<close>

text \<open>Two connections of the user alice and one connection of the user bob.\<close>

definition alice1 :: sock where
  "alice1 = \<lparr>sock_id = ''c1'', sock_userId = ''alice'', sock_userName = ''Alice'',
             sock_email = ''alice@example.org'', sock_socket = Some ''c1''\<rparr>"

definition alice2 :: sock where
  "alice2 = \<lparr>sock_id = ''c2'', sock_userId = ''alice'', sock_userName = ''Alice'',
             sock_email = ''alice@example.org'', sock_socket = Some ''c2''\<rparr>"

definition bob :: sock where
  "bob = \<lparr>sock_id = ''c3'', sock_userId = ''bob'', sock_userName = ''Bob'',
          sock_email = ''bob@example.org'', sock_socket = Some ''c3''\<rparr>"

text \<open>The texts of the \<^verbatim>\<open>messageReceived\<close> events among the events a socket was sent.\<close>

fun message_texts :: "event list \<Rightarrow> string list" where
  "message_texts [] = []"
| "message_texts (MessageReceived m # es) = msg_text m # message_texts es"
| "message_texts (e # es) = message_texts es"

text \<open>Two chat messages, one without and one with an avatar.\<close>

definition hi :: message_data where
  "hi = \<lparr>md_text = ''hi'', md_avatar = None\<rparr>"

definition yo :: message_data where
  "yo = \<lparr>md_text = ''yo'', md_avatar = Some ''a.png''\<rparr>"

text \<open>The state the server reaches when alice and then bob have connected.\<close>

definition lobby :: server where
  "lobby =
     \<lparr>activeUsers =
        [(''alice'', \<lparr>ui_socketId = ''c1'', ui_userName = ''Alice'',
                      ui_email = ''alice@example.org'', ui_status = ''online''\<rparr>),
         (''bob'', \<lparr>ui_socketId = ''c3'', ui_userName = ''Bob'',
                    ui_email = ''bob@example.org'', ui_status = ''online''\<rparr>)],
      sockets = [alice1, bob],
      rooms = (\<lambda>_. {})(''c1'' := {''c1''}, ''c3'' := {''c3''}),
      trace =
        [(''c1'', UserConnected ''alice'' ''Alice''
             [\<lparr>ui_socketId = ''c1'', ui_userName = ''Alice'',
               ui_email = ''alice@example.org'', ui_status = ''online''\<rparr>]),
         (''c1'', UserConnected ''bob'' ''Bob''
             [\<lparr>ui_socketId = ''c1'', ui_userName = ''Alice'',
               ui_email = ''alice@example.org'', ui_status = ''online''\<rparr>,
              \<lparr>ui_socketId = ''c3'', ui_userName = ''Bob'',
               ui_email = ''bob@example.org'', ui_status = ''online''\<rparr>]),
         (''c3'', UserConnected ''bob'' ''Bob''
             [\<lparr>ui_socketId = ''c1'', ui_userName = ''Alice'',
               ui_email = ''alice@example.org'', ui_status = ''online''\<rparr>,
              \<lparr>ui_socketId = ''c3'', ui_userName = ''Bob'',
               ui_email = ''bob@example.org'', ui_status = ''online''\<rparr>])]\<rparr>"

text \<open>Two connection attempts: one without a token, one with a token.\<close>

definition no_token :: handshake where
  "no_token = \<lparr>hs_id = ''c7'', hs_token = None, hs_socket = Some ''c7''\<rparr>"

definition some_token :: handshake where
  "some_token = \<lparr>hs_id = ''c8'', hs_token = Some ''not-a-jwt'', hs_socket = Some ''c8''\<rparr>"

text \<open>
  The component while a countdown is running: the ref holds the (positive) id of the one
  pending timer, which is due at \<open>due\<close> and emits through a socket.
\<close>

definition armed :: "nat \<Rightarrow> chat \<Rightarrow> bool" where
  "armed due st =
     (case typingTimeoutRef st of
        None \<Rightarrow> False
      | Some i \<Rightarrow> 0 < i \<and> timers st = [\<lparr>tm_id = i, tm_due = due, tm_socket = True\<rparr>])"

text \<open>
  Three further sockets, with no property \<^verbatim>\<open>socket\<close>: two connections of the user dana
  and one connection of the user erin.
\<close>

definition dana1 :: sock where
  "dana1 = \<lparr>sock_id = ''d1'', sock_userId = ''dana'', sock_userName = ''Dana'',
            sock_email = ''dana@example.org'', sock_socket = None\<rparr>"

definition dana2 :: sock where
  "dana2 = \<lparr>sock_id = ''d2'', sock_userId = ''dana'', sock_userName = ''Dana'',
            sock_email = ''dana@example.org'', sock_socket = None\<rparr>"

definition erin :: sock where
  "erin = \<lparr>sock_id = ''e1'', sock_userId = ''erin'', sock_userName = ''Erin'',
           sock_email = ''erin@example.org'', sock_socket = None\<rparr>"

text \<open>
  A server state in which dana has two open connections and erin one. The registry entry
  of dana names her second connection, as the later of two registrations leaves it. Every
  socket is in the room of its own id, and dana's first connection is also in the room
  general. Nothing has been emitted yet.
\<close>

definition hall :: server where
  "hall =
     \<lparr>activeUsers =
        [(''dana'', \<lparr>ui_socketId = ''d2'', ui_userName = ''Dana'',
                     ui_email = ''dana@example.org'', ui_status = ''online''\<rparr>),
         (''erin'', \<lparr>ui_socketId = ''e1'', ui_userName = ''Erin'',
                     ui_email = ''erin@example.org'', ui_status = ''online''\<rparr>)],
      sockets = [dana1, dana2, erin],
      rooms = (\<lambda>_. {})(''d1'' := {''d1''}, ''d2'' := {''d2''}, ''e1'' := {''e1''},
                          ''general'' := {''d1''}),
      trace = []\<rparr>"


text \<open>
  Payloads: a typing event, a notification for dana, and a notification for frank, a user
  with no connection.
\<close>

definition typing_on :: typing_data where
  "typing_on = \<lparr>td_isTyping = True\<rparr>"

definition to_dana :: notification_data where
  "to_dana = \<lparr>nd_recipientId = ''dana'', nd_message = ''ping'', nd_type = None\<rparr>"

definition to_frank :: notification_data where
  "to_frank = \<lparr>nd_recipientId = ''frank'', nd_message = ''ping'', nd_type = None\<rparr>"

section \<open>The registration as the specification asks for it\<close>



section \<open>The presence registry\<close>

lemma map_set_absent: "k \<notin> set (map fst m) \<Longrightarrow> map_set k v m = m @ [(k, v)]"
  by (induction m) auto

lemma map_delete_absent: "k \<notin> set (map fst m) \<Longrightarrow> map_delete k m = m"
  by (induction m) (auto simp: map_delete_def)

lemma map_delete_append: "map_delete k (m @ n) = map_delete k m @ map_delete k n"
  by (simp add: map_delete_def)

lemma map_set_keys_present: "k \<in> set (map fst m) \<Longrightarrow> map fst (map_set k v m) = map fst m"
  by (induction m) auto

lemma map_get_map_set: "map_get k (map_set k v m) = Some v"
  by (induction m) (auto simp: map_get_def)

lemma map_delete_keys: "k \<notin> set (map fst (map_delete k m))"
  by (auto simp: map_delete_def)

text \<open>
  Claim C3, as stated, at a registry that already holds the identity: alice is registered
  through her first connection; registering her second connection and deregistering alice
  leaves an empty snapshot, not the snapshot from before the register.
\<close>

theorem register_deregister_counterexample:
  "activeUsers_values (activeUsers_delete (sock_userId alice2)
       (activeUsers_set alice2 (activeUsers_set alice1 init)))
   \<noteq> activeUsers_values (activeUsers_set alice1 init)"
  by (simp add: activeUsers_values_def activeUsers_delete_def activeUsers_set_def init_def
      alice1_def alice2_def map_values_def map_delete_def)

text \<open>
  Claim C3, amended. For an identity that is not registered, register followed by
  deregister restores the snapshot, and the keys stay distinct. For an identity that is
  registered, a further register keeps the list of keys as it is (no second entry, the
  snapshot keeps its length) and the identity's entry becomes the new connection's.
\<close>

theorem register_deregister:
  assumes "distinct (map fst (activeUsers srv))"
      and "\<not> map_has (sock_userId s) (activeUsers srv)"
      and "distinct (map fst (activeUsers srv2))"
      and "map_has (sock_userId s2) (activeUsers srv2)"
  shows "activeUsers_values (activeUsers_delete (sock_userId s) (activeUsers_set s srv))
           = activeUsers_values srv
       \<and> distinct (map fst (activeUsers (activeUsers_set s srv)))
       \<and> map fst (activeUsers (activeUsers_set s2 srv2)) = map fst (activeUsers srv2)
       \<and> distinct (map fst (activeUsers (activeUsers_set s2 srv2)))
       \<and> length (activeUsers_values (activeUsers_set s2 srv2)) = length (activeUsers_values srv2)
       \<and> map_get (sock_userId s2) (activeUsers (activeUsers_set s2 srv2))
           = Some \<lparr>ui_socketId = sock_id s2, ui_userName = sock_userName s2,
                   ui_email = sock_email s2, ui_status = ''online''\<rparr>"
proof -
  from assms(2) have absent: "sock_userId s \<notin> set (map fst (activeUsers srv))"
    by (simp add: map_has_def)
  from assms(4) have present: "sock_userId s2 \<in> set (map fst (activeUsers srv2))"
    by (simp add: map_has_def)
  have a: "activeUsers_values (activeUsers_delete (sock_userId s) (activeUsers_set s srv))
           = activeUsers_values srv"
    using absent
    by (simp add: activeUsers_values_def activeUsers_delete_def activeUsers_set_def
        map_set_absent map_delete_append map_delete_absent)
       (simp add: map_delete_def)
  have b: "distinct (map fst (activeUsers (activeUsers_set s srv)))"
    using absent assms(1) by (simp add: activeUsers_set_def map_set_absent)
  have c: "map fst (activeUsers (activeUsers_set s2 srv2)) = map fst (activeUsers srv2)"
    using present by (simp add: activeUsers_set_def map_set_keys_present)
  have d: "distinct (map fst (activeUsers (activeUsers_set s2 srv2)))"
    using c assms(3) by simp
  have e: "length (activeUsers_values (activeUsers_set s2 srv2)) = length (activeUsers_values srv2)"
    using arg_cong[OF c, of length] by (simp add: activeUsers_values_def map_values_def)
  have f: "map_get (sock_userId s2) (activeUsers (activeUsers_set s2 srv2))
           = Some \<lparr>ui_socketId = sock_id s2, ui_userName = sock_userName s2,
                   ui_email = sock_email s2, ui_status = ''online''\<rparr>"
    by (simp add: activeUsers_set_def map_get_map_set)
  from a b c d e f show ?thesis by blast
qed

theorem register_deregister_witness:
  "distinct (map fst (activeUsers init))
   \<and> \<not> map_has (sock_userId alice1) (activeUsers init)
   \<and> distinct (map fst (activeUsers (activeUsers_set alice1 init)))
   \<and> map_has (sock_userId alice2) (activeUsers (activeUsers_set alice1 init))
   \<and> activeUsers_values (activeUsers_delete (sock_userId alice1) (activeUsers_set alice1 init))
       = activeUsers_values init
   \<and> map fst (activeUsers (activeUsers_set alice2 (activeUsers_set alice1 init)))
       = map fst (activeUsers (activeUsers_set alice1 init))"
proof -
  have h1: "distinct (map fst (activeUsers init))"
    by (simp add: init_def)
  have h2: "\<not> map_has (sock_userId alice1) (activeUsers init)"
    by (simp add: init_def map_has_def)
  have h3: "distinct (map fst (activeUsers (activeUsers_set alice1 init)))"
    by (simp add: init_def activeUsers_set_def)
  have h4: "map_has (sock_userId alice2) (activeUsers (activeUsers_set alice1 init))"
    by (simp add: init_def activeUsers_set_def map_has_def alice1_def alice2_def)
  from register_deregister [OF h1 h2 h3 h4] h1 h2 h3 h4 show ?thesis
    by blast
qed

section \<open>What a socket receives from an emission\<close>

lemma received_emit_to:
  "received (emit_to rs e srv) i = received srv i @ map (\<lambda>_. e) (filter (\<lambda>r. sock_id r = i) rs)"
  by (simp add: received_def emit_to_def filter_map comp_def)

lemma filter_sock_id:
  "distinct (map sock_id rs) \<Longrightarrow> r \<in> set rs \<Longrightarrow> filter (\<lambda>x. sock_id x = sock_id r) rs = [r]"
proof (induction rs)
  case Nil
  then show ?case by simp
next
  case (Cons a rs)
  show ?case
  proof (cases "a = r")
    case True
    with Cons.prems have "sock_id r \<notin> sock_id ` set rs" by simp
    then have "\<forall>x\<in>set rs. sock_id x \<noteq> sock_id r" by (metis imageI)
    then have "filter (\<lambda>x. sock_id x = sock_id r) rs = []" by (simp add: filter_empty_conv)
    with True show ?thesis by simp
  next
    case False
    with Cons.prems have "r \<in> set rs" "sock_id a \<noteq> sock_id r" by auto
    with Cons show ?thesis by simp
  qed
qed

lemma sockets_emit_to: "sockets (emit_to rs e srv) = sockets srv"
  by (simp add: emit_to_def)

lemma sock_id_neq:
  assumes "distinct (map sock_id rs)" and "r \<in> set rs" and "x \<in> set rs" and "x \<noteq> r"
  shows "sock_id x \<noteq> sock_id r"
  using assms by (metis distinct_map inj_onD)

lemma received_emit_to_filter:
  assumes "distinct (map sock_id rs)" and "r \<in> set rs"
  shows "received (emit_to (filter P rs) e srv) (sock_id r)
         = received srv (sock_id r) @ (if P r then [e] else [])"
proof -
  have "filter (\<lambda>x. sock_id x = sock_id r) (filter P rs)
        = filter P (filter (\<lambda>x. sock_id x = sock_id r) rs)"
    by (simp add: conj_commute)
  also have "\<dots> = filter P [r]"
    using assms by (simp add: filter_sock_id)
  finally show ?thesis by (simp add: received_emit_to)
qed

lemma received_io_emit:
  assumes "distinct (map sock_id (sockets srv))" and "r \<in> set (sockets srv)"
  shows "received (io_emit e srv) (sock_id r) = received srv (sock_id r) @ [e]"
  using assms by (simp add: io_emit_def received_emit_to filter_sock_id)

lemma find_Some_mem: "find P xs = Some r \<Longrightarrow> r \<in> set xs \<and> P r"
  by (induction xs) (auto split: if_splits)

lemma find_None_all: "(find P xs = None) = (\<forall>x\<in>set xs. \<not> P x)"
  by (induction xs) auto

subsection \<open>The example state is reachable\<close>

lemma run_lobby: "run [Admit alice1, Admit bob] init = Some lobby"
  by (simp add: admit_def connection_def connection_register_def nsp_add_def socket_join_def init_def
      activeUsers_set_def activeUsers_values_def io_emit_def emit_to_def alice1_def bob_def
      map_values_def lobby_def Let_def)

lemma lobby_sockets: "sockets lobby = [alice1, bob]"
  by (simp add: lobby_def)

lemma lobby_distinct: "distinct (map sock_id (sockets lobby))"
  unfolding lobby_sockets by (simp add: alice1_def bob_def)

lemma lobby_received_bob:
  "received lobby (sock_id bob) = [UserConnected ''bob'' ''Bob'' (activeUsers_values lobby)]"
  by (simp add: received_def lobby_def bob_def activeUsers_values_def map_values_def)

lemma lobby_received_alice:
  "received lobby (sock_id alice1)
   = [UserConnected ''alice'' ''Alice'' [snd (hd (activeUsers lobby))],
      UserConnected ''bob'' ''Bob'' (activeUsers_values lobby)]"
  by (simp add: received_def lobby_def alice1_def activeUsers_values_def map_values_def)

section \<open>Chat messages\<close>

lemma received_sendMessage:
  assumes "distinct (map sock_id (sockets srv))" and "r \<in> set (sockets srv)"
  shows "received (sendMessage s now d srv) (sock_id r)
         = received srv (sock_id r) @ [MessageReceived (message_of s now d)]"
  using assms by (simp add: sendMessage_def io_emit_def received_emit_to filter_sock_id)

lemma message_texts_map:
  "message_texts (map (\<lambda>e. MessageReceived (message_of (fst e) (fst (snd e)) (snd (snd e)))) evs)
   = map (\<lambda>e. md_text (snd (snd e))) evs"
  by (induction evs) (simp_all add: message_of_def)

text \<open>
  Claim C1. The target scope of \<^verbatim>\<open>sendMessage\<close> is every connected socket. Let the
  server process a sequence \<open>evs\<close> of \<^verbatim>\<open>sendMessage\<close> events, each given by its sender,
  the clock and the payload. The run completes and the connected sockets are the same.
  Every connected socket \<open>r\<close> is sent, after what it had been sent before, exactly one
  \<^verbatim>\<open>messageReceived\<close> per event, in the order of processing, and the texts of these events
  are the texts of the payloads.
\<close>

theorem sendMessage_delivery:
  assumes "distinct (map sock_id (sockets srv))" and "r \<in> set (sockets srv)"
  shows "\<exists>srv' new.
           run (map (\<lambda>e. SendMessage (fst e) (fst (snd e)) (snd (snd e))) evs) srv = Some srv'
         \<and> sockets srv' = sockets srv
         \<and> received srv' (sock_id r) = received srv (sock_id r) @ new
         \<and> new = map (\<lambda>e. MessageReceived (message_of (fst e) (fst (snd e)) (snd (snd e)))) evs
         \<and> message_texts new = map (\<lambda>e. md_text (snd (snd e))) evs"
  using assms
proof (induction evs arbitrary: srv)
  case Nil
  then show ?case by simp
next
  case (Cons e evs)
  let ?srv1 = "sendMessage (fst e) (fst (snd e)) (snd (snd e)) srv"
  have s1: "sockets ?srv1 = sockets srv"
    by (simp add: sendMessage_def io_emit_def sockets_emit_to)
  have r1: "received ?srv1 (sock_id r)
            = received srv (sock_id r) @ [MessageReceived (message_of (fst e) (fst (snd e)) (snd (snd e)))]"
    using Cons.prems by (rule received_sendMessage)
  from Cons.IH [of ?srv1] Cons.prems s1
  obtain srv' where
    run: "run (map (\<lambda>e. SendMessage (fst e) (fst (snd e)) (snd (snd e))) evs) ?srv1 = Some srv'"
    and so: "sockets srv' = sockets ?srv1"
    and re: "received srv' (sock_id r) = received ?srv1 (sock_id r)
              @ map (\<lambda>e. MessageReceived (message_of (fst e) (fst (snd e)) (snd (snd e)))) evs"
    by auto
  have "run (map (\<lambda>e. SendMessage (fst e) (fst (snd e)) (snd (snd e))) (e # evs)) srv = Some srv'"
    using run by simp
  moreover have "sockets srv' = sockets srv" using so s1 by simp
  moreover have "received srv' (sock_id r) = received srv (sock_id r)
      @ map (\<lambda>e. MessageReceived (message_of (fst e) (fst (snd e)) (snd (snd e)))) (e # evs)"
    using re r1 by simp
  ultimately show ?case using message_texts_map [of "e # evs"] by blast
qed

theorem sendMessage_delivery_witness:
  "run [Admit alice1, Admit bob] init = Some lobby
   \<and> distinct (map sock_id (sockets lobby))
   \<and> bob \<in> set (sockets lobby)
   \<and> (\<exists>srv'. run [SendMessage alice1 5 hi, SendMessage bob 6 yo] lobby = Some srv'
           \<and> message_texts (received srv' (sock_id bob)) = [''hi'', ''yo''])"
proof -
  have h2: "bob \<in> set (sockets lobby)"
    unfolding lobby_sockets by simp
  from sendMessage_delivery [OF lobby_distinct h2, of "[(alice1, 5, hi), (bob, 6, yo)]"]
  obtain srv' new where
    "run [SendMessage alice1 5 hi, SendMessage bob 6 yo] lobby = Some srv'"
    "received srv' (sock_id bob) = received lobby (sock_id bob) @ new"
    "message_texts new = [md_text hi, md_text yo]"
    by auto
  then have "run [SendMessage alice1 5 hi, SendMessage bob 6 yo] lobby = Some srv'
     \<and> message_texts (received srv' (sock_id bob)) = [''hi'', ''yo'']"
    by (simp add: lobby_received_bob hi_def yo_def)
  with run_lobby lobby_distinct h2 show ?thesis by blast
qed

section \<open>Rooms\<close>

text \<open>
  Claim C8. The handler first joins the socket to the room and then emits to the room.
  For a connected socket \<open>s\<close>: after the handler the room holds \<open>s\<close>; \<open>s\<close> is sent its own
  \<^verbatim>\<open>roomEvent\<close> of type userJoined; and every connected socket is sent that event exactly
  if it is a member of the room as it stands after the join.
\<close>

theorem joinChatRoom_delivery:
  assumes "distinct (map sock_id (sockets srv))" and "s \<in> set (sockets srv)"
  shows "rooms (joinChatRoom s roomId srv) roomId = insert (sock_id s) (rooms srv roomId)
       \<and> received (joinChatRoom s roomId srv) (sock_id s)
           = received srv (sock_id s)
             @ [RoomEvent ''userJoined'' (sock_userName s) (sock_userName s @ '' has joined the room'')]
       \<and> (\<forall>r\<in>set (sockets srv).
             received (joinChatRoom s roomId srv) (sock_id r)
             = received srv (sock_id r)
               @ (if sock_id r \<in> rooms (joinChatRoom s roomId srv) roomId
                  then [RoomEvent ''userJoined'' (sock_userName s)
                          (sock_userName s @ '' has joined the room'')]
                  else []))"
proof -
  let ?j = "socket_join s roomId srv"
  let ?e = "RoomEvent ''userJoined'' (sock_userName s) (sock_userName s @ '' has joined the room'')"
  have so: "sockets ?j = sockets srv" and tr: "trace ?j = trace srv"
    and ro: "rooms ?j roomId = insert (sock_id s) (rooms srv roomId)"
    by (simp_all add: socket_join_def)
  have rj: "received ?j i = received srv i" for i
    by (simp add: received_def tr)
  have ro': "rooms (joinChatRoom s roomId srv) roomId = insert (sock_id s) (rooms srv roomId)"
    by (simp add: joinChatRoom_def io_to_emit_def emit_to_def socket_join_def)
  have all: "received (joinChatRoom s roomId srv) (sock_id r)
             = received srv (sock_id r)
               @ (if sock_id r \<in> rooms (joinChatRoom s roomId srv) roomId then [?e] else [])"
    if "r \<in> set (sockets srv)" for r
  proof -
    have "received (joinChatRoom s roomId srv) (sock_id r)
          = received ?j (sock_id r) @ (if sock_id r \<in> rooms ?j roomId then [?e] else [])"
      unfolding joinChatRoom_def io_to_emit_def
      using assms(1) that by (simp only: so received_emit_to_filter)
    then show ?thesis by (simp only: rj ro ro')
  qed
  from all [OF assms(2)] ro' have own:
    "received (joinChatRoom s roomId srv) (sock_id s) = received srv (sock_id s) @ [?e]"
    by simp
  from ro' own all show ?thesis by blast
qed

theorem joinChatRoom_delivery_witness:
  "distinct (map sock_id (sockets lobby))
   \<and> bob \<in> set (sockets lobby)
   \<and> alice1 \<in> set (sockets lobby)
   \<and> rooms (joinChatRoom bob ''general'' lobby) ''general'' = {''c3''}
   \<and> received (joinChatRoom bob ''general'' lobby) (sock_id bob)
       = received lobby (sock_id bob)
         @ [RoomEvent ''userJoined'' ''Bob'' ''Bob has joined the room'']
   \<and> received (joinChatRoom bob ''general'' lobby) (sock_id alice1)
       = received lobby (sock_id alice1)"
proof -
  have hb: "bob \<in> set (sockets lobby)" and ha: "alice1 \<in> set (sockets lobby)"
    unfolding lobby_sockets by simp_all
  have r0: "rooms lobby ''general'' = {}"
    by (simp add: lobby_def)
  have f: "sock_id bob = ''c3''" "sock_userName bob = ''Bob''" "sock_id alice1 = ''c1''"
    by (simp_all add: bob_def alice1_def)
  note t = joinChatRoom_delivery [OF lobby_distinct hb, of "''general''"]
  from t have ro: "rooms (joinChatRoom bob ''general'' lobby) ''general'' = {''c3''}"
    by (simp add: r0 f)
  from t have own: "received (joinChatRoom bob ''general'' lobby) (sock_id bob)
       = received lobby (sock_id bob)
         @ [RoomEvent ''userJoined'' ''Bob'' ''Bob has joined the room'']"
    by (simp add: f)
  from t ha have "received (joinChatRoom bob ''general'' lobby) (sock_id alice1)
       = received lobby (sock_id alice1)
         @ (if sock_id alice1 \<in> rooms (joinChatRoom bob ''general'' lobby) ''general''
            then [RoomEvent ''userJoined'' (sock_userName bob)
                    (sock_userName bob @ '' has joined the room'')]
            else [])"
    by blast
  then have other: "received (joinChatRoom bob ''general'' lobby) (sock_id alice1)
       = received lobby (sock_id alice1)"
    by (simp add: ro f)
  from lobby_distinct hb ha ro own other show ?thesis by blast
qed

section \<open>Authentication failures\<close>

text \<open>
  Claim C4. If the handshake carries no token (absent or empty), or a token that
  \<^verbatim>\<open>jwt.decode\<close> does not decode (it returns \<^verbatim>\<open>null\<close> or throws), the middleware yields an
  error, the attempt is refused with that error, and the server state, \<^verbatim>\<open>activeUsers\<close>
  included, is the state from before the attempt: no socket, no registry entry, no
  emission.
\<close>

theorem auth_failure_atomic:
  assumes "hs_token hs = None \<or> hs_token hs = Some []
           \<or> (\<exists>t. hs_token hs = Some t \<and> (decode t = Null \<or> (\<exists>m. decode t = Throws m)))"
  shows "\<exists>msg. auth decode hs = Inl msg \<and> accept decode hs srv = Some (ConnectError msg, srv)"
  using assms by (auto simp: auth_def accept_def)

theorem auth_failure_atomic_witness:
  "hs_token no_token = None
   \<and> accept (\<lambda>t. Null) no_token lobby
       = Some (ConnectError ''Authentication error: No token provided'', lobby)
   \<and> hs_token some_token = Some ''not-a-jwt''
   \<and> accept (\<lambda>t. Null) some_token lobby
       = Some (ConnectError ''Authentication failed: Invalid token'', lobby)"
proof -
  have h1: "hs_token no_token = None"
    by (simp add: no_token_def)
  have h2: "hs_token some_token = Some ''not-a-jwt''"
    by (simp add: some_token_def)
  have m1: "auth (\<lambda>t. Null) no_token = Inl ''Authentication error: No token provided''"
    by (simp add: auth_def h1)
  have m2: "auth (\<lambda>t. Null) some_token = Inl ''Authentication failed: Invalid token''"
    by (simp add: auth_def h2)
  from auth_failure_atomic [of no_token "\<lambda>t. Null" lobby] h1 m1
  have a: "accept (\<lambda>t. Null) no_token lobby
       = Some (ConnectError ''Authentication error: No token provided'', lobby)"
    by auto
  from auth_failure_atomic [of some_token "\<lambda>t. Null" lobby] h2 m2
  have b: "accept (\<lambda>t. Null) some_token lobby
       = Some (ConnectError ''Authentication failed: Invalid token'', lobby)"
    by auto
  from h1 h2 a b show ?thesis by blast
qed

section \<open>The typing debounce of the chat component\<close>

lemma advance_idle:
  "timers st = [] \<Longrightarrow> advance now st = st"
  by (simp add: advance_def)

lemma advance_early:
  "armed due st \<Longrightarrow> now < due \<Longrightarrow> advance now st = st"
  by (auto simp: armed_def advance_def split: option.splits)

lemma advance_due:
  assumes "armed due st" and "due \<le> now"
  shows "emitted (advance now st) = emitted st @ [False]"
    and "typingTimeoutRef (advance now st) = None"
    and "timers (advance now st) = []"
  using assms
  by (auto simp: armed_def advance_def timeout_callback_def emit_userTyping_def
      split: option.splits)

lemma handleInputChange_idle:
  assumes "typingTimeoutRef st = None" and "timers st = []"
  shows "emitted (handleInputChange True now v st) = emitted st @ [True]"
    and "armed (now + 2000) (handleInputChange True now v st)"
  using assms
  by (simp_all add: handleInputChange_def falsy_def emit_userTyping_def clearTimeout_def
      armed_def Let_def)

lemma handleInputChange_armed:
  assumes "armed due st"
  shows "emitted (handleInputChange True now v st) = emitted st"
    and "armed (now + 2000) (handleInputChange True now v st)"
  using assms
  by (auto simp: handleInputChange_def falsy_def emit_userTyping_def clearTimeout_def
      armed_def Let_def split: option.splits)

lemma keystroke_idle:
  assumes "typingTimeoutRef st = None" and "timers st = []"
  shows "emitted (keystroke True k st) = emitted st @ [True]"
    and "armed (fst k + 2000) (keystroke True k st)"
  using assms by (simp_all add: keystroke_def advance_idle handleInputChange_idle)

lemma keystroke_armed:
  assumes "armed due st" and "fst k < due"
  shows "emitted (keystroke True k st) = emitted st"
    and "armed (fst k + 2000) (keystroke True k st)"
  using assms by (simp_all add: keystroke_def advance_early handleInputChange_armed)

lemma type_burst_armed:
  assumes "armed (t0 + 2000) st" and "within_window (t0 # map fst ks)"
  shows "emitted (type_burst True ks st) = emitted st
       \<and> armed (last (t0 # map fst ks) + 2000) (type_burst True ks st)"
  using assms
proof (induction ks arbitrary: st t0)
  case Nil
  then show ?case by simp
next
  case (Cons k ks)
  from Cons.prems(2) have lt: "fst k < t0 + 2000" and ww: "within_window (fst k # map fst ks)"
    by simp_all
  from keystroke_armed [OF Cons.prems(1) lt]
  have e: "emitted (keystroke True k st) = emitted st"
    and a: "armed (fst k + 2000) (keystroke True k st)"
    by simp_all
  from Cons.IH [OF a ww] e show ?case by simp
qed

text \<open>
  Claim C5. The component is idle (the ref is \<^verbatim>\<open>null\<close>, no timer is pending) and has a
  socket. A burst \<open>ks\<close> of one or more keystrokes follows, each less than 2000 ms after
  the one before. The first keystroke emits \<^verbatim>\<open>isTyping = true\<close>; the whole burst has
  emitted that one event and nothing else, and so it stays at any time \<open>t\<close> before the
  window has elapsed after the last keystroke. Once the window has elapsed (\<open>t_end\<close>), one
  \<^verbatim>\<open>isTyping = false\<close> has been emitted after it, the ref is \<^verbatim>\<open>null\<close> again and no timer
  is pending.
\<close>

theorem typing_burst:
  assumes "typingTimeoutRef st = None" and "timers st = []"
      and "ks \<noteq> []" and "within_window (map fst ks)"
      and "fst (last ks) + 2000 \<le> t_end"
      and "t < fst (last ks) + 2000"
  shows "emitted (keystroke True (hd ks) st) = emitted st @ [True]
       \<and> emitted (type_burst True ks st) = emitted st @ [True]
       \<and> emitted (advance t (type_burst True ks st)) = emitted st @ [True]
       \<and> emitted (advance t_end (type_burst True ks st)) = emitted st @ [True, False]
       \<and> typingTimeoutRef (advance t_end (type_burst True ks st)) = None
       \<and> timers (advance t_end (type_burst True ks st)) = []"
proof -
  from assms(3) obtain k ks' where ks: "ks = k # ks'"
    by (cases ks) auto
  let ?st1 = "keystroke True k st"
  from keystroke_idle [OF assms(1,2)]
  have e1: "emitted ?st1 = emitted st @ [True]" and a1: "armed (fst k + 2000) ?st1"
    by simp_all
  from assms(4) have ww: "within_window (fst k # map fst ks')"
    by (simp add: ks)
  have la: "last (fst k # map fst ks') = fst (last ks)"
    by (simp add: ks last_map)
  from type_burst_armed [OF a1 ww]
  have e2: "emitted (type_burst True ks st) = emitted st @ [True]"
    and a2: "armed (fst (last ks) + 2000) (type_burst True ks st)"
    by (simp_all only: ks type_burst.simps e1 la [unfolded ks])
  from advance_early [OF a2 assms(6)]
  have e3: "emitted (advance t (type_burst True ks st)) = emitted st @ [True]"
    by (simp add: e2)
  from advance_due [OF a2 assms(5)]
  have e4: "emitted (advance t_end (type_burst True ks st)) = emitted st @ [True, False]"
    and r4: "typingTimeoutRef (advance t_end (type_burst True ks st)) = None"
    and t4: "timers (advance t_end (type_burst True ks st)) = []"
    by (simp_all add: e2)
  from e1 e2 e3 e4 r4 t4 show ?thesis by (simp add: ks)
qed

theorem typing_burst_witness:
  "typingTimeoutRef mounted = None
   \<and> timers mounted = []
   \<and> within_window (map fst [(100, ''h''), (900, ''he''), (2800, ''hel'')])
   \<and> fst (last [(100, ''h''), (900, ''he''), (2800, ''hel'')]) + 2000 \<le> (4800 :: nat)
   \<and> (4799 :: nat) < fst (last [(100, ''h''), (900, ''he''), (2800, ''hel'')]) + 2000
   \<and> emitted (advance 4799 (type_burst True [(100, ''h''), (900, ''he''), (2800, ''hel'')] mounted))
       = [True]
   \<and> emitted (advance 4800 (type_burst True [(100, ''h''), (900, ''he''), (2800, ''hel'')] mounted))
       = [True, False]
   \<and> typingTimeoutRef
        (advance 4800 (type_burst True [(100, ''h''), (900, ''he''), (2800, ''hel'')] mounted))
       = None"
proof -
  let ?ks = "[(100 :: nat, ''h''), (900, ''he''), (2800, ''hel'')]"
  have h1: "typingTimeoutRef mounted = None" and h2: "timers mounted = []"
    and e0: "emitted mounted = []"
    by (simp_all add: mounted_def)
  have h3: "?ks \<noteq> []"
    by simp
  have h4: "within_window (map fst ?ks)"
    by simp
  have h5: "fst (last ?ks) + 2000 \<le> (4800 :: nat)"
    by simp
  have h6: "(4799 :: nat) < fst (last ?ks) + 2000"
    by simp
  from typing_burst [OF h1 h2 h3 h4 h5 h6]
  have "emitted (advance 4799 (type_burst True ?ks mounted)) = [True]
      \<and> emitted (advance 4800 (type_burst True ?ks mounted)) = [True, False]
      \<and> typingTimeoutRef (advance 4800 (type_burst True ?ks mounted)) = None"
    by (simp only: e0 append_Nil)
  with h1 h2 h4 h5 h6 show ?thesis by blast
qed

section \<open>The example state with three sockets\<close>

lemma hall_sockets: "sockets hall = [dana1, dana2, erin]"
  by (simp add: hall_def)

lemma hall_distinct: "distinct (map sock_id (sockets hall))"
  unfolding hall_sockets by (simp add: dana1_def dana2_def erin_def)

lemma hall_received: "received hall i = []"
  by (simp add: received_def hall_def)

lemma hall_room_d1: "rooms hall (sock_id dana1) = {sock_id dana1}"
  by (simp add: hall_def dana1_def)

section \<open>Typing indicators\<close>

text \<open>
  Claim C6, as stated, at the state \<open>hall\<close>. Erin's socket is in neither of the rooms that
  dana's first connection is in (general and the room of its own id), and still receives
  the typing event of that connection. And once that connection has left the room of its
  own id, through \<^verbatim>\<open>leaveChatRoom\<close>, it receives its own typing event.
\<close>

theorem userTyping_counterexample:
  "rooms hall ''general'' = {''d1''}
   \<and> rooms hall ''d1'' = {''d1''}
   \<and> map_option (\<lambda>srv. received srv ''e1'') (userTyping dana1 (Some typing_on) hall)
       = Some [UserTyping ''dana'' ''Dana'' True]
   \<and> map_option (\<lambda>srv. received srv ''d1'')
        (userTyping dana1 (Some typing_on) (leaveChatRoom dana1 ''d1'' hall))
       = Some [UserTyping ''dana'' ''Dana'' True]"
  by (simp add: hall_def dana1_def dana2_def erin_def typing_on_def userTyping_def
      broadcast_emit_def emit_to_def received_def leaveChatRoom_def socket_leave_def
      io_to_emit_def)

text \<open>
  Claim C6, amended. A \<^verbatim>\<open>userTyping\<close> event without payload makes the handler throw. For
  an event with a payload, the handler completes, and a connected socket is sent the
  \<^verbatim>\<open>userTyping\<close> event, once, exactly if it is not a member of the room named by the
  sender's socket id; no other room matters. When that room holds the sender alone, as
  the library sets it up, these are the connected sockets other than the sender, and the
  sender receives nothing.
\<close>

theorem userTyping_delivery:
  assumes "distinct (map sock_id (sockets srv))" and "r \<in> set (sockets srv)"
  shows "userTyping s None srv = None
       \<and> (\<exists>srv'. userTyping s (Some d) srv = Some srv'
             \<and> received srv' (sock_id r)
                 = received srv (sock_id r)
                   @ (if sock_id r \<in> rooms srv (sock_id s) then []
                      else [UserTyping (sock_userId s) (sock_userName s) (td_isTyping d)])
             \<and> (rooms srv (sock_id s) = {sock_id s} \<longrightarrow>
                  received srv' (sock_id r)
                  = received srv (sock_id r)
                    @ (if sock_id r = sock_id s then []
                       else [UserTyping (sock_userId s) (sock_userName s) (td_isTyping d)])))"
proof -
  let ?e = "UserTyping (sock_userId s) (sock_userName s) (td_isTyping d)"
  let ?srv' = "broadcast_emit s ?e srv"
  have n: "userTyping s None srv = None" and u: "userTyping s (Some d) srv = Some ?srv'"
    by (simp_all add: userTyping_def)
  have re: "received ?srv' (sock_id r)
            = received srv (sock_id r) @ (if sock_id r \<in> rooms srv (sock_id s) then [] else [?e])"
    using assms by (simp add: broadcast_emit_def received_emit_to_filter)
  have own: "rooms srv (sock_id s) = {sock_id s} \<longrightarrow>
               received ?srv' (sock_id r)
               = received srv (sock_id r) @ (if sock_id r = sock_id s then [] else [?e])"
    using re by simp
  from n u re own show ?thesis by blast
qed

theorem userTyping_delivery_witness:
  "distinct (map sock_id (sockets hall))
   \<and> erin \<in> set (sockets hall)
   \<and> dana1 \<in> set (sockets hall)
   \<and> rooms hall (sock_id dana1) = {sock_id dana1}
   \<and> userTyping dana1 None hall = None
   \<and> (\<exists>srv'. userTyping dana1 (Some typing_on) hall = Some srv'
         \<and> received srv' (sock_id erin) = [UserTyping ''dana'' ''Dana'' True]
         \<and> received srv' (sock_id dana1) = [])"
proof -
  have he: "erin \<in> set (sockets hall)" and hd: "dana1 \<in> set (sockets hall)"
    unfolding hall_sockets by simp_all
  have ne: "sock_id erin \<noteq> sock_id dana1"
    by (simp add: dana1_def erin_def)
  have f: "sock_userId dana1 = ''dana''" "sock_userName dana1 = ''Dana''"
    "td_isTyping typing_on = True"
    by (simp_all add: dana1_def typing_on_def)
  from userTyping_delivery [OF hall_distinct he, of dana1 typing_on]
  obtain srv' where n: "userTyping dana1 None hall = None"
    and u: "userTyping dana1 (Some typing_on) hall = Some srv'"
    and e: "received srv' (sock_id erin) = [UserTyping ''dana'' ''Dana'' True]"
    using hall_room_d1 ne by (auto simp: hall_received f)
  from userTyping_delivery [OF hall_distinct hd, of dana1 typing_on] u
  have o: "received srv' (sock_id dana1) = []"
    using hall_room_d1 by (auto simp: hall_received)
  from hall_distinct he hd hall_room_d1 n u e o show ?thesis by blast
qed

section \<open>Notifications\<close>

text \<open>
  Claim C2, as stated. At the state \<open>hall\<close>, erin notifies frank, who is neither
  registered nor connected: the handler completes and leaves the server exactly as it
  was, so nothing is yielded to the caller. And when dana's first connection has
  closed, dana is absent from the registry, and a notification for her is still delivered
  to her second connection.
\<close>

theorem sendNotification_counterexample:
  "sendNotification erin 9 (Some to_frank) hall = Some hall
   \<and> \<not> map_has ''dana'' (activeUsers (close dana1 hall))
   \<and> map_option (\<lambda>srv. last (received srv ''d2''))
        (sendNotification erin 9 (Some to_dana) (close dana1 hall))
       = Some (NotificationReceived (notification_of erin 9 to_dana))"
  by (simp add: hall_def dana1_def dana2_def erin_def to_frank_def to_dana_def
      sendNotification_def socket_emit_def emit_to_def received_def close_def
      disconnect_def nsp_remove_def activeUsers_delete_def activeUsers_values_def
      io_emit_def map_delete_def map_values_def map_has_def Let_def)

text \<open>
  Claim C2, amended. A \<^verbatim>\<open>sendNotification\<close> event without payload makes the handler
  throw. For an event with a payload the handler looks the recipient up among the
  connected sockets. If a connected socket carries the recipient's user id, the handler
  completes, the first such socket is sent exactly one \<^verbatim>\<open>notificationReceived\<close>, nothing
  else is emitted, and no other connection observes anything. If none does, the handler
  completes and changes nothing: no event is observed by any connection and no outcome is
  given to the caller.
\<close>

theorem sendNotification_delivery:
  assumes "distinct (map sock_id (sockets srv))"
  shows "sendNotification s now None srv = None
       \<and> (if \<exists>x\<in>set (sockets srv). sock_userId x = nd_recipientId d
          then \<exists>r\<in>set (sockets srv). \<exists>srv'.
                 find (\<lambda>x. sock_userId x = nd_recipientId d) (sockets srv) = Some r
               \<and> sock_userId r = nd_recipientId d
               \<and> sendNotification s now (Some d) srv = Some srv'
               \<and> trace srv'
                   = trace srv @ [(sock_id r, NotificationReceived (notification_of s now d))]
               \<and> received srv' (sock_id r)
                   = received srv (sock_id r) @ [NotificationReceived (notification_of s now d)]
               \<and> (\<forall>x\<in>set (sockets srv). x \<noteq> r \<longrightarrow>
                     received srv' (sock_id x) = received srv (sock_id x))
          else sendNotification s now (Some d) srv = Some srv)"
proof -
  have n: "sendNotification s now None srv = None"
    by (simp add: sendNotification_def)
  show ?thesis
  proof (cases "find (\<lambda>x. sock_userId x = nd_recipientId d) (sockets srv)")
    case None
    then have "\<not> (\<exists>x\<in>set (sockets srv). sock_userId x = nd_recipientId d)"
      by (simp add: find_None_all)
    then show ?thesis using None n by (simp add: sendNotification_def)
  next
    case (Some r)
    let ?srv' = "emit_to [r] (NotificationReceived (notification_of s now d)) srv"
    from Some have r: "r \<in> set (sockets srv)" "sock_userId r = nd_recipientId d"
      using find_Some_mem [of "\<lambda>x. sock_userId x = nd_recipientId d" "sockets srv" r] by simp_all
    have eq: "sendNotification s now (Some d) srv = Some ?srv'"
      using Some by (simp add: sendNotification_def socket_emit_def)
    have t: "trace ?srv'
             = trace srv @ [(sock_id r, NotificationReceived (notification_of s now d))]"
      by (simp add: emit_to_def)
    have own: "received ?srv' (sock_id r)
               = received srv (sock_id r) @ [NotificationReceived (notification_of s now d)]"
      by (simp add: received_emit_to)
    have others: "\<forall>x\<in>set (sockets srv). x \<noteq> r \<longrightarrow>
            received ?srv' (sock_id x) = received srv (sock_id x)"
    proof (intro ballI impI)
      fix x assume "x \<in> set (sockets srv)" "x \<noteq> r"
      with assms r(1) have "sock_id r \<noteq> sock_id x" using sock_id_neq by metis
      then show "received ?srv' (sock_id x) = received srv (sock_id x)"
        by (simp add: received_emit_to)
    qed
    from r have ex: "\<exists>x\<in>set (sockets srv). sock_userId x = nd_recipientId d"
      by blast
    from r Some eq t own others have
      "\<exists>r\<in>set (sockets srv). \<exists>srv'.
                 find (\<lambda>x. sock_userId x = nd_recipientId d) (sockets srv) = Some r
               \<and> sock_userId r = nd_recipientId d
               \<and> sendNotification s now (Some d) srv = Some srv'
               \<and> trace srv'
                   = trace srv @ [(sock_id r, NotificationReceived (notification_of s now d))]
               \<and> received srv' (sock_id r)
                   = received srv (sock_id r) @ [NotificationReceived (notification_of s now d)]
               \<and> (\<forall>x\<in>set (sockets srv). x \<noteq> r \<longrightarrow>
                     received srv' (sock_id x) = received srv (sock_id x))"
      by blast
    with ex n show ?thesis by simp
  qed
qed

theorem sendNotification_delivery_witness:
  "distinct (map sock_id (sockets hall))
   \<and> sendNotification erin 9 None hall = None
   \<and> (\<exists>srv'. sendNotification erin 9 (Some to_dana) hall = Some srv'
         \<and> trace srv'
             = trace hall @ [(sock_id dana1, NotificationReceived (notification_of erin 9 to_dana))]
         \<and> received srv' (sock_id dana2) = received hall (sock_id dana2))
   \<and> sendNotification erin 9 (Some to_frank) hall = Some hall"
proof -
  have present: "\<exists>x\<in>set (sockets hall). sock_userId x = nd_recipientId to_dana"
    unfolding hall_sockets by (simp add: dana1_def to_dana_def)
  have absent: "\<not> (\<exists>x\<in>set (sockets hall). sock_userId x = nd_recipientId to_frank)"
    unfolding hall_sockets by (simp add: dana1_def dana2_def erin_def to_frank_def)
  have fd: "find (\<lambda>x. sock_userId x = nd_recipientId to_dana) (sockets hall) = Some dana1"
    unfolding hall_sockets by (simp add: dana1_def to_dana_def)
  have h2: "dana2 \<in> set (sockets hall)" and ne: "dana2 \<noteq> dana1"
    unfolding hall_sockets by (simp_all add: dana1_def dana2_def)
  note t = sendNotification_delivery [OF hall_distinct, of erin 9 to_dana]
  from t have n: "sendNotification erin 9 None hall = None"
    by simp
  from t present fd h2 ne
  have a: "\<exists>srv'. sendNotification erin 9 (Some to_dana) hall = Some srv'
         \<and> trace srv'
             = trace hall @ [(sock_id dana1, NotificationReceived (notification_of erin 9 to_dana))]
         \<and> received srv' (sock_id dana2) = received hall (sock_id dana2)"
    by auto
  from sendNotification_delivery [OF hall_distinct, of erin 9 to_frank] absent
  have b: "sendNotification erin 9 (Some to_frank) hall = Some hall"
    by simp
  from hall_distinct n a b show ?thesis by blast
qed

section \<open>Connecting and disconnecting\<close>

lemma close_fields:
  "sockets (close d srv) = filter (\<lambda>r. sock_id r \<noteq> sock_id d) (sockets srv)"
  "activeUsers (close d srv) = map_delete (sock_userId d) (activeUsers srv)"
  by (simp_all add: close_def disconnect_def nsp_remove_def activeUsers_delete_def
      io_emit_def emit_to_def Let_def)

lemma received_close:
  assumes "distinct (map sock_id (sockets srv))" and "r \<in> set (sockets (close d srv))"
  shows "received (close d srv) (sock_id r)
         = received srv (sock_id r)
           @ [UserDisconnected (sock_userId d) (sock_userName d) (activeUsers_values (close d srv))]"
proof -
  let ?n = "activeUsers_delete (sock_userId d) (nsp_remove d srv)"
  have so: "sockets ?n = filter (\<lambda>r. sock_id r \<noteq> sock_id d) (sockets srv)"
    and tr: "trace ?n = trace srv"
    by (simp_all add: nsp_remove_def activeUsers_delete_def)
  have di: "distinct (map sock_id (sockets ?n))"
    using assms(1) by (simp add: so distinct_map_filter)
  have mem: "r \<in> set (sockets ?n)"
    using assms(2) by (simp add: so close_fields)
  have va: "activeUsers_values (close d srv) = activeUsers_values ?n"
    by (simp add: close_def disconnect_def activeUsers_values_def io_emit_def emit_to_def Let_def)
  have "received (close d srv) (sock_id r)
        = received ?n (sock_id r)
          @ [UserDisconnected (sock_userId d) (sock_userName d) (activeUsers_values ?n)]"
    unfolding close_def disconnect_def Let_def
    using di mem by (rule received_io_emit)
  moreover have "received ?n (sock_id r) = received srv (sock_id r)"
    by (simp add: received_def tr)
  ultimately show ?thesis by (simp only: va)
qed




text \<open>
  Claim C10. The disconnect handler deletes the registry entry of the closing socket's
  user id whatever the entry holds: the registry after \<open>close\<close> is the registry before with
  that key deleted. So let \<open>s1\<close> and \<open>s2\<close> be two connected sockets of one user id, and let
  \<open>d\<close> be either of them. When both have been registered, the later registration has
  overwritten the earlier and the entry names \<open>s2\<close>. When \<open>d\<close> closes, the user id is gone
  from the registry, in the server's state as it is and in the state with both
  registered alike; the other socket is still connected; and every socket still
  connected, the other socket of the user among them, is sent the \<^verbatim>\<open>userDisconnected\<close>
  event of that user.
\<close>

theorem disconnect_unconditional:
  assumes "distinct (map sock_id (sockets srv))"
      and "s1 \<in> set (sockets srv)" and "s2 \<in> set (sockets srv)"
      and "sock_userId s1 = sock_userId s2" and "sock_id s1 \<noteq> sock_id s2"
      and "d = s1 \<or> d = s2"
  shows "activeUsers (close d srv) = map_delete (sock_userId d) (activeUsers srv)
       \<and> map_option ui_socketId
           (map_get (sock_userId s1) (activeUsers (activeUsers_set s2 (activeUsers_set s1 srv))))
           = Some (sock_id s2)
       \<and> \<not> map_has (sock_userId s1)
             (activeUsers (close d (activeUsers_set s2 (activeUsers_set s1 srv))))
       \<and> \<not> map_has (sock_userId s1) (activeUsers (close d srv))
       \<and> (if d = s1 then s2 else s1) \<in> set (sockets (close d srv))
       \<and> (\<forall>r\<in>set (sockets (close d srv)).
             received (close d srv) (sock_id r)
             = received srv (sock_id r)
               @ [UserDisconnected (sock_userId d) (sock_userName d)
                    (activeUsers_values (close d srv))])"
proof -
  have uid: "sock_userId d = sock_userId s1"
    using assms(4,6) by auto
  have a: "activeUsers (close d srv) = map_delete (sock_userId d) (activeUsers srv)"
    by (simp add: close_fields)
  have b: "map_option ui_socketId
           (map_get (sock_userId s1) (activeUsers (activeUsers_set s2 (activeUsers_set s1 srv))))
           = Some (sock_id s2)"
    by (simp add: activeUsers_set_def assms(4) map_get_map_set)
  have c: "\<not> map_has (sock_userId s1)
             (activeUsers (close d (activeUsers_set s2 (activeUsers_set s1 srv))))"
    using map_delete_keys [of "sock_userId s1"]
    by (simp add: close_fields uid map_has_def)
  have e: "\<not> map_has (sock_userId s1) (activeUsers (close d srv))"
    using map_delete_keys [of "sock_userId s1" "activeUsers srv"]
    by (simp add: close_fields uid map_has_def)
  have other: "(if d = s1 then s2 else s1) \<in> set (sockets (close d srv))"
    using assms(2,3,5,6) by (auto simp: close_fields)
  have rec: "\<forall>r\<in>set (sockets (close d srv)).
             received (close d srv) (sock_id r)
             = received srv (sock_id r)
               @ [UserDisconnected (sock_userId d) (sock_userName d)
                    (activeUsers_values (close d srv))]"
    using received_close [OF assms(1)] by blast
  from a b c e other rec show ?thesis by blast
qed

theorem disconnect_unconditional_witness:
  "distinct (map sock_id (sockets hall))
   \<and> dana1 \<in> set (sockets hall)
   \<and> dana2 \<in> set (sockets hall)
   \<and> sock_userId dana1 = sock_userId dana2
   \<and> sock_id dana1 \<noteq> sock_id dana2
   \<and> map_option ui_socketId (map_get ''dana'' (activeUsers hall)) = Some ''d2''
   \<and> \<not> map_has ''dana'' (activeUsers (close dana1 hall))
   \<and> dana2 \<in> set (sockets (close dana1 hall))
   \<and> received (close dana1 hall) ''d2''
       = [UserDisconnected ''dana'' ''Dana'' (activeUsers_values (close dana1 hall))]
   \<and> \<not> map_has ''dana'' (activeUsers (close dana2 hall))
   \<and> dana1 \<in> set (sockets (close dana2 hall))"
proof -
  have h2: "dana1 \<in> set (sockets hall)" and h3: "dana2 \<in> set (sockets hall)"
    unfolding hall_sockets by simp_all
  have h4: "sock_userId dana1 = sock_userId dana2" and h5: "sock_id dana1 \<noteq> sock_id dana2"
    by (simp_all add: dana1_def dana2_def)
  have ne: "dana1 \<noteq> dana2"
    using h5 by auto
  have g: "sock_userId dana1 = ''dana''" "sock_userName dana1 = ''Dana''" "sock_id dana2 = ''d2''"
    by (simp_all add: dana1_def dana2_def)
  have en: "map_option ui_socketId (map_get ''dana'' (activeUsers hall)) = Some ''d2''"
    by (simp add: hall_def map_get_def)
  have d1: "dana1 = dana1 \<or> dana1 = dana2" and d2: "dana2 = dana1 \<or> dana2 = dana2"
    by simp_all
  note t1 = disconnect_unconditional [OF hall_distinct h2 h3 h4 h5 d1]
  note t2 = disconnect_unconditional [OF hall_distinct h2 h3 h4 h5 d2]
  from t1 have "\<not> map_has (sock_userId dana1) (activeUsers (close dana1 hall))"
    by blast
  then have a: "\<not> map_has ''dana'' (activeUsers (close dana1 hall))"
    unfolding g .
  from t1 have "(if dana1 = dana1 then dana2 else dana1) \<in> set (sockets (close dana1 hall))"
    by blast
  then have b: "dana2 \<in> set (sockets (close dana1 hall))"
    by simp
  from t1 b have "received (close dana1 hall) (sock_id dana2)
       = received hall (sock_id dana2)
         @ [UserDisconnected (sock_userId dana1) (sock_userName dana1)
              (activeUsers_values (close dana1 hall))]"
    by blast
  then have c: "received (close dana1 hall) ''d2''
       = [UserDisconnected ''dana'' ''Dana'' (activeUsers_values (close dana1 hall))]"
    by (simp add: g hall_received)
  from t2 have "\<not> map_has (sock_userId dana1) (activeUsers (close dana2 hall))"
    by blast
  then have d: "\<not> map_has ''dana'' (activeUsers (close dana2 hall))"
    unfolding g .
  from t2 have "(if dana2 = dana1 then dana2 else dana1) \<in> set (sockets (close dana2 hall))"
    by blast
  then have e: "dana1 \<in> set (sockets (close dana2 hall))"
    using ne by simp
  from hall_distinct h2 h3 h4 h5 en a b c d e show ?thesis by blast
qed

end
